theory Spec2Isabelle
  imports Complex_Main "HOL-Library.Word" "HOL-Library.Log_Nat"
begin

section \<open>Data model of \<open>fpga_controller.py\<close>\<close>

text \<open>
  Python integers are modelled as \<open>int\<close>, \<open>bytes\<close> as a list of 8-bit words, and the
  value of a Python float as a \<open>real\<close>. The float arithmetic of \<open>read_metrics\<close> rounds
  every result to a double (\<open>binary64\<close> below). The clock (\<open>time.time\<close>) and the random
  source (\<open>random.random\<close>) are outside the program: the values they return are
  arguments of the operation that reads them. Console output and \<open>time.sleep\<close> have no
  effect on the state and are left out.
\<close>

datatype ComponentStatus = ACTIVE | IDLE | ERROR

record FPGAConfig =
  window_size :: int
  active_cores :: int
  data_rate :: int
  filter_threshold :: int

record PerformanceMetrics =
  timestamp :: real
  latency_us :: real
  throughput_mbps :: real
  jitter_us :: real
  pcie_status :: ComponentStatus
  dma_status :: ComponentStatus
  compute_status :: ComponentStatus

record FPGAController =
  config :: FPGAConfig
  is_connected :: bool
  metrics_history :: "PerformanceMetrics list"

text \<open>The exceptions the two scripts can raise, directly or from the standard library.\<close>

datatype error =
  RuntimeError | StatisticsError | ValueError | IndexError | ZeroDivisionError

type_synonym bytes = "8 word list"

text \<open>The defaults of the dataclass \<open>FPGAConfig\<close>.\<close>

definition default_config :: FPGAConfig where
  "default_config =
     \<lparr>window_size = 1024, active_cores = 4, data_rate = 1000, filter_threshold = 100\<rparr>"

text \<open>\<open>FPGAController.__init__\<close>\<close>

definition init_controller :: FPGAController where
  "init_controller =
     \<lparr>config = default_config, is_connected = False, metrics_history = []\<rparr>"

section \<open>Operations of \<open>FPGAController\<close>\<close>

text \<open>
  Every method is a function from the controller before the call to the outcome of the
  call paired with the controller after it. A raised exception is \<open>Inl\<close>.
\<close>

definition connect :: "FPGAController \<Rightarrow> bool \<times> FPGAController" where
  "connect c = (True, c\<lparr>is_connected := True\<rparr>)"

definition disconnect :: "FPGAController \<Rightarrow> FPGAController" where
  "disconnect c = c\<lparr>is_connected := False\<rparr>"

text \<open>
  \<open>stream_data\<close>: the guard on \<open>is_connected\<close>, then the three simulated phases (sleeps
  only; \<open>elapsed\<close> is computed and dropped), then the input is returned.
\<close>

definition stream_data ::
  "FPGAController \<Rightarrow> bytes \<Rightarrow> (error + bytes) \<times> FPGAController" where
  "stream_data c data =
     (if \<not> is_connected c then (Inl RuntimeError, c) else (Inr data, c))"


text \<open>
  \<open>update_config(**kwargs)\<close>. The keyword arguments are an association list in call
  order (a Python dict: the keys are distinct, and \<open>self\<close> is never among them). No
  value is checked against any domain before \<open>setattr\<close>.

  Among the names that do not start with an underscore, the attributes of an
  \<open>FPGAConfig\<close> object are its four fields, and \<open>hasattr_config\<close> and
  \<open>setattr_config\<close> are the built-ins on those names. Every other attribute of the
  object is a special one, whose name starts with an underscore (\<open>__class__\<close>,
  \<open>__dict__\<close>, \<open>__doc__\<close>, ...): Python's \<open>hasattr\<close> is true for it and \<open>setattr\<close>
  raises or stores a value outside the four fields. Such keywords are outside this
  model, and \<open>private_name\<close> is the test that the properties of \<open>update_config\<close> use
  to exclude them.
\<close>

definition private_name :: "string \<Rightarrow> bool" where
  "private_name key = (case key of [] \<Rightarrow> False | ch # _ \<Rightarrow> ch = CHR ''_'')"

definition hasattr_config :: "string \<Rightarrow> bool" where
  "hasattr_config key =
     (key = ''window_size'' \<or> key = ''active_cores'' \<or>
      key = ''data_rate'' \<or> key = ''filter_threshold'')"

definition setattr_config :: "FPGAConfig \<Rightarrow> string \<Rightarrow> int \<Rightarrow> FPGAConfig" where
  "setattr_config cfg key v =
     (if key = ''window_size'' then cfg\<lparr>window_size := v\<rparr>
      else if key = ''active_cores'' then cfg\<lparr>active_cores := v\<rparr>
      else if key = ''data_rate'' then cfg\<lparr>data_rate := v\<rparr>
      else if key = ''filter_threshold'' then cfg\<lparr>filter_threshold := v\<rparr>
      else cfg)"

fun update_items :: "FPGAConfig \<Rightarrow> (string \<times> int) list \<Rightarrow> FPGAConfig" where
  "update_items cfg [] = cfg"
| "update_items cfg ((key, v) # kwargs) =
     update_items (if hasattr_config key then setattr_config cfg key v else cfg) kwargs"

definition update_config ::
  "FPGAController \<Rightarrow> (string \<times> int) list \<Rightarrow> bool \<times> FPGAController" where
  "update_config c kwargs = (True, c\<lparr>config := update_items (config c) kwargs\<rparr>)"

subsection \<open>Double precision arithmetic\<close>

text \<open>
  A float operation of Python returns the exact result rounded to the nearest double,
  ties to the even significand. \<open>binade x\<close> is the exponent \<open>e\<close> with
  \<open>2 ^ e \<le> \<bar>x\<bar> < 2 ^ (e + 1)\<close>; a double has 53 significant bits, so its unit in the
  last place is \<open>2 ^ (e - 52)\<close>, and \<open>2 ^ - 1074\<close> in the subnormal range. Results beyond
  the largest double are not modelled: the conversion of an integer of that size
  raises \<open>OverflowError\<close> in Python, and no sum of \<open>read_metrics\<close> reaches it from
  integers that convert.
\<close>

definition pow2 :: "int \<Rightarrow> real" where
  "pow2 e = (if 0 \<le> e then 2 ^ nat e else 1 / 2 ^ nat (- e))"

definition binade :: "real \<Rightarrow> int" where
  "binade x = (if 1 \<le> \<bar>x\<bar> then bitlen \<lfloor>\<bar>x\<bar>\<rfloor> - 1
               else - bitlen (\<lceil>1 / \<bar>x\<bar>\<rceil> - 1))"

definition round_half_even :: "real \<Rightarrow> int" where
  "round_half_even y =
     (let f = \<lfloor>y\<rfloor>; d = y - of_int f
      in if d < 1 / 2 then f
         else if 1 / 2 < d then f + 1
         else if even f then f else f + 1)"

definition binary64 :: "real \<Rightarrow> real" where
  "binary64 x =
     (if x = 0 then 0
      else let ulp = pow2 (max (- 1074) (binade x - 52))
           in of_int (round_half_even (x / ulp)) * ulp)"

text \<open>
  \<open>random.uniform(a, b)\<close> is \<open>a + (b - a) * random()\<close>, where \<open>random()\<close> draws a double
  from the unit interval. The draw \<open>r\<close> is an argument. The source passes integer
  bounds: \<open>b - a\<close> is an integer difference, and the product and the sum convert their
  integer operand and round.
\<close>

definition uniform :: "int \<Rightarrow> int \<Rightarrow> real \<Rightarrow> real" where
  "uniform a b r =
     binary64 (binary64 (of_int a) + binary64 (binary64 (of_int (b - a)) * r))"

text \<open>
  \<open>read_metrics\<close>. There is no guard on \<open>is_connected\<close> in this method. The three
  draws are taken in source order (latency, throughput, jitter); \<open>now\<close> is the reading
  of \<open>time.time()\<close>. \<open>base_latency\<close> and \<open>active_cores * 250\<close> are integers; each is
  converted to a double and added to a double.
\<close>

definition read_metrics ::
  "FPGAController \<Rightarrow> real \<Rightarrow> real \<Rightarrow> real \<Rightarrow> real \<Rightarrow>
   PerformanceMetrics \<times> FPGAController" where
  "read_metrics c r_lat r_thr r_jit now =
     (let base_latency = 50 + (8 - active_cores (config c)) * 10;
          latency = binary64 (binary64 (of_int base_latency) + uniform (- 5) 15 r_lat);
          throughput = binary64 (binary64 (of_int (active_cores (config c) * 250))
                                 + uniform (- 50) 50 r_thr);
          jitter = uniform 0 5 r_jit;
          metrics = \<lparr>timestamp = now, latency_us = latency,
                     throughput_mbps = throughput, jitter_us = jitter,
                     pcie_status = ACTIVE, dma_status = ACTIVE,
                     compute_status = ACTIVE\<rparr>
      in (metrics, c\<lparr>metrics_history := metrics_history c @ [metrics]\<rparr>))"


section \<open>Python built-ins used by the statistics\<close>

definition bind_err :: "error + 'a \<Rightarrow> ('a \<Rightarrow> error + 'b) \<Rightarrow> error + 'b" where
  "bind_err m f = (case m of Inl e \<Rightarrow> Inl e | Inr x \<Rightarrow> f x)"

text \<open>\<open>xs[-n:]\<close> for a positive \<open>n\<close>: the last \<open>n\<close> elements, or all of a shorter list.\<close>

definition slice_last :: "nat \<Rightarrow> 'a list \<Rightarrow> 'a list" where
  "slice_last n xs = drop (length xs - n) xs"

text \<open>\<open>max\<close> and \<open>min\<close> of a list raise \<open>ValueError\<close> on the empty list.\<close>

fun py_max :: "real list \<Rightarrow> error + real" where
  "py_max [] = Inl ValueError"
| "py_max (x # xs) = Inr (fold max xs x)"

fun py_min :: "real list \<Rightarrow> error + real" where
  "py_min [] = Inl ValueError"
| "py_min (x # xs) = Inr (fold min xs x)"

text \<open>\<open>xs[i]\<close> for a non-negative index raises \<open>IndexError\<close> out of range.\<close>

definition py_index :: "'a list \<Rightarrow> nat \<Rightarrow> error + 'a" where
  "py_index xs i = (if i < length xs then Inr (xs ! i) else Inl IndexError)"

text \<open>\<open>a / b\<close> raises \<open>ZeroDivisionError\<close> when \<open>b\<close> is zero.\<close>

definition py_truediv :: "real \<Rightarrow> real \<Rightarrow> error + real" where
  "py_truediv a b = (if b = 0 then Inl ZeroDivisionError else Inr (a / b))"

text \<open>
  \<open>int(len(xs) * q)\<close> for a non-negative fraction \<open>q\<close>: \<open>int\<close> truncates, which is the
  floor here. The source writes \<open>q\<close> as the float literals 0.95 and 0.99; the model
  takes the exact fractions (for list lengths below \<open>2 ^ 46\<close> the rounded float product
  truncates to the same integer; the lists here hold at most 100 or \<open>iterations\<close> values).
\<close>

definition int_of_scaled_len :: "nat \<Rightarrow> real \<Rightarrow> nat" where
  "int_of_scaled_len n q = nat \<lfloor>real n * q\<rfloor>"

text \<open>
  The functions of Python's \<open>statistics\<close> module that the profiler calls, after their
  documentation: \<open>mean\<close> and \<open>median\<close> raise \<open>StatisticsError\<close> on no data, \<open>stdev\<close> on
  fewer than two values.
\<close>

definition mean :: "real list \<Rightarrow> error + real" where
  "mean xs = (if xs = [] then Inl StatisticsError
              else Inr (sum_list xs / real (length xs)))"

definition median :: "real list \<Rightarrow> error + real" where
  "median xs =
     (let data = sort xs; n = length data
      in if n = 0 then Inl StatisticsError
         else if n mod 2 = 1 then Inr (data ! (n div 2))
         else Inr ((data ! (n div 2 - 1) + data ! (n div 2)) / 2))"

definition stdev :: "real list \<Rightarrow> error + real" where
  "stdev xs =
     (if length xs < 2 then Inl StatisticsError
      else let m = sum_list xs / real (length xs)
           in Inr (sqrt (sum_list (map (\<lambda>x. (x - m)\<^sup>2) xs) / real (length xs - 1))))"

section \<open>\<open>FPGAController.get_statistics\<close>\<close>

record Statistics =
  avg_latency_us :: real
  max_latency_us :: real
  min_latency_us :: real
  p99_latency_us :: real
  max_jitter_us :: real
  speedup_vs_cpu :: real

text \<open>
  The result is \<open>None\<close> for the empty dictionary that the guard on an empty history
  returns. The entries of the dictionary are evaluated in source order, so the first
  exception wins. The sum and the quotients are the exact ones: how \<open>sum\<close> adds
  doubles depends on the interpreter's version, and the doubles it computes differ from
  these values by rounding.
\<close>

definition get_statistics :: "FPGAController \<Rightarrow> error + Statistics option" where
  "get_statistics c =
     (if metrics_history c = [] then Inr None
      else
        let latencies = map latency_us (slice_last 100 (metrics_history c));
            jitters = map jitter_us (slice_last 100 (metrics_history c))
        in bind_err (py_truediv (sum_list latencies) (real (length latencies))) (\<lambda>avg.
           bind_err (py_max latencies) (\<lambda>mx.
           bind_err (py_min latencies) (\<lambda>mn.
           bind_err (py_index (sort latencies)
                       (int_of_scaled_len (length latencies) 0.99)) (\<lambda>p99.
           bind_err (py_max jitters) (\<lambda>mj.
           bind_err (py_truediv (sum_list latencies) (real (length latencies))) (\<lambda>avg'.
           bind_err (py_truediv 150 avg') (\<lambda>speedup.
           Inr (Some \<lparr>avg_latency_us = avg, max_latency_us = mx,
                      min_latency_us = mn, p99_latency_us = p99,
                      max_jitter_us = mj, speedup_vs_cpu = speedup\<rparr>)))))))))"

section \<open>\<open>PerformanceProfiler.run_latency_test\<close>\<close>

record LatencyResults =
  res_mean :: real
  res_median :: real
  res_stdev :: real
  res_min :: real
  res_max :: real
  res_p95 :: real
  res_p99 :: real

text \<open>The dictionary \<open>results\<close> built from the collected latencies.\<close>

definition latency_results :: "real list \<Rightarrow> error + LatencyResults" where
  "latency_results latencies =
     bind_err (mean latencies) (\<lambda>m.
     bind_err (median latencies) (\<lambda>md.
     bind_err (stdev latencies) (\<lambda>sd.
     bind_err (py_min latencies) (\<lambda>mn.
     bind_err (py_max latencies) (\<lambda>mx.
     bind_err (py_index (sort latencies)
                 (int_of_scaled_len (length latencies) 0.95)) (\<lambda>p95.
     bind_err (py_index (sort latencies)
                 (int_of_scaled_len (length latencies) 0.99)) (\<lambda>p99.
     Inr \<lparr>res_mean = m, res_median = md, res_stdev = sd, res_min = mn,
          res_max = mx, res_p95 = p95, res_p99 = p99\<rparr>)))))))"

text \<open>The 1 KB test payload \<open>b"x" * 1024\<close>.\<close>

definition test_data :: bytes where
  "test_data = replicate 1024 120"

text \<open>
  The measuring loop: iteration \<open>i\<close> streams the payload and appends the time the
  profiler measured around the call, \<open>elapsed i\<close>. An exception of \<open>stream_data\<close>
  leaves the loop.
\<close>

fun latency_loop ::
  "FPGAController \<Rightarrow> (nat \<Rightarrow> real) \<Rightarrow> nat list \<Rightarrow> real list \<Rightarrow>
   (error + real list) \<times> FPGAController" where
  "latency_loop c elapsed [] latencies = (Inr latencies, c)"
| "latency_loop c elapsed (i # rest) latencies =
     (case stream_data c test_data of
        (Inl e, c') \<Rightarrow> (Inl e, c')
      | (Inr _, c') \<Rightarrow> latency_loop c' elapsed rest (latencies @ [elapsed i]))"

definition run_latency_test ::
  "FPGAController \<Rightarrow> int \<Rightarrow> (nat \<Rightarrow> real) \<Rightarrow>
   (error + LatencyResults) \<times> FPGAController" where
  "run_latency_test c iterations elapsed =
     (case latency_loop c elapsed [0 ..< nat iterations] [] of
        (Inl e, c') \<Rightarrow> (Inl e, c')
      | (Inr latencies, c') \<Rightarrow> (latency_results latencies, c'))"

text \<open>
  Modelled from the spec's words, for comparison with the source's expression: the
  nearest-rank percentile, index \<open>floor (p / 100 * length)\<close> clamped to
  \<open>[0, length - 1]\<close> in the ascending order.
\<close>

definition spec_percentile :: "real \<Rightarrow> real list \<Rightarrow> real" where
  "spec_percentile p xs =
     sort xs ! nat (max 0 (min (int (length xs) - 1) \<lfloor>p / 100 * real (length xs)\<rfloor>))"

section \<open>Helper lemmas\<close>

subsection \<open>Rounding to a double between two integers\<close>

text \<open>
  Integers below \<open>2 ^ 53\<close> in magnitude are doubles, and rounding cannot cross a
  double: a value between two such integers rounds to a double between them.
\<close>

lemma round_half_even_ge: "of_int k \<le> y \<Longrightarrow> k \<le> round_half_even y"
proof -
  assume "of_int k \<le> y"
  then have "k \<le> \<lfloor>y\<rfloor>" by (simp add: le_floor_iff)
  then show ?thesis by (simp add: round_half_even_def Let_def)
qed

lemma round_half_even_le: "y \<le> of_int k \<Longrightarrow> round_half_even y \<le> k"
proof (cases "y = of_int k")
  case True
  then show ?thesis by (simp add: round_half_even_def Let_def)
next
  case False
  assume "y \<le> of_int k"
  with False have "y < of_int k" by simp
  then have "\<lfloor>y\<rfloor> < k" by (simp add: floor_less_iff)
  then show ?thesis by (simp add: round_half_even_def Let_def)
qed

lemma binade_le_52:
  assumes "\<bar>x\<bar> < 2 ^ 53"
  shows "binade x \<le> 52"
proof (cases "1 \<le> \<bar>x\<bar>")
  case True
  have "\<lfloor>\<bar>x\<bar>\<rfloor> < 2 ^ 53" using assms by (simp add: floor_less_iff)
  then have "bitlen \<lfloor>\<bar>x\<bar>\<rfloor> \<le> 53" by (simp add: bitlen_le_iff_power)
  then show ?thesis using True by (simp add: binade_def)
next
  case False
  have "0 \<le> bitlen (\<lceil>1 / \<bar>x\<bar>\<rceil> - 1)" by (rule bitlen_nonneg)
  then show ?thesis using False by (simp add: binade_def)
qed

lemma binary64_between:
  assumes lo: "of_int lo \<le> x" and hi: "x \<le> of_int hi"
    and blo: "\<bar>lo\<bar> < 2 ^ 53" and bhi: "\<bar>hi\<bar> < 2 ^ 53"
  shows "of_int lo \<le> binary64 x \<and> binary64 x \<le> of_int hi"
proof (cases "x = 0")
  case True
  then show ?thesis using lo hi by (simp add: binary64_def)
next
  case False
  have "\<bar>x\<bar> \<le> max \<bar>of_int lo\<bar> \<bar>of_int hi :: real\<bar>" using lo hi by linarith
  moreover have "\<bar>of_int lo :: real\<bar> < 2 ^ 53" "\<bar>of_int hi :: real\<bar> < 2 ^ 53"
    using blo bhi by (simp_all flip: of_int_abs add: of_int_less_numeral_power_cancel_iff)
  ultimately have "\<bar>x\<bar> < 2 ^ 53" by linarith
  then have "binade x - 52 \<le> 0" using binade_le_52 [of x] by simp
  define E where "E = max (- 1074) (binade x - 52)"
  define j where "j = nat (- E)"
  have E: "E \<le> 0" using \<open>binade x - 52 \<le> 0\<close> by (simp add: E_def)
  have ulp: "pow2 E = 1 / 2 ^ j"
    using E by (cases "E = 0") (simp_all add: pow2_def j_def)
  have q: "x / pow2 E = x * 2 ^ j" by (simp add: ulp)
  have "of_int (lo * 2 ^ j) \<le> x * 2 ^ j" using lo by simp
  then have "lo * 2 ^ j \<le> round_half_even (x * 2 ^ j)" by (rule round_half_even_ge)
  then have "(of_int (lo * 2 ^ j) :: real) \<le> of_int (round_half_even (x * 2 ^ j))"
    by (simp only: of_int_le_iff)
  then have l: "of_int lo \<le> of_int (round_half_even (x * 2 ^ j)) / (2 ^ j :: real)"
    by (simp add: pos_le_divide_eq)
  have "x * 2 ^ j \<le> of_int (hi * 2 ^ j)" using hi by simp
  then have "round_half_even (x * 2 ^ j) \<le> hi * 2 ^ j" by (rule round_half_even_le)
  then have "(of_int (round_half_even (x * 2 ^ j)) :: real) \<le> of_int (hi * 2 ^ j)"
    by (simp only: of_int_le_iff)
  then have h: "of_int (round_half_even (x * 2 ^ j)) / (2 ^ j :: real) \<le> of_int hi"
    by (simp add: pos_divide_le_eq)
  have "binary64 x = of_int (round_half_even (x * 2 ^ j)) / 2 ^ j"
    using False by (simp add: binary64_def Let_def E_def [symmetric] q) (simp add: ulp)
  then show ?thesis using l h by simp
qed

lemma binary64_of_int: "\<bar>k\<bar> < 2 ^ 53 \<Longrightarrow> binary64 (of_int k) = of_int k"
  using binary64_between [of k "of_int k" k] by simp

lemma uniform_between:
  assumes "a \<le> b" "\<bar>a\<bar> < 2 ^ 53" "\<bar>b\<bar> < 2 ^ 53" "\<bar>b - a\<bar> < 2 ^ 53" "0 \<le> r" "r \<le> 1"
  shows "of_int a \<le> uniform a b r \<and> uniform a b r \<le> of_int b"
proof -
  have d: "binary64 (of_int (b - a)) = of_int (b - a)" using assms(4) by (rule binary64_of_int)
  have a: "binary64 (of_int a) = of_int a" using assms(2) by (rule binary64_of_int)
  have "0 \<le> real_of_int (b - a)" using assms(1) by simp
  then have "of_int 0 \<le> of_int (b - a) * r" "of_int (b - a) * r \<le> of_int (b - a)"
    using assms(5,6) by (simp_all add: mult_left_le)
  then have p: "of_int 0 \<le> binary64 (of_int (b - a) * r)"
       "binary64 (of_int (b - a) * r) \<le> of_int (b - a)"
    using binary64_between [of 0 "of_int (b - a) * r" "b - a"] assms(4) by simp_all
  have s1: "of_int a \<le> of_int a + binary64 (of_int (b - a) * r)"
    and s2: "of_int a + binary64 (of_int (b - a) * r) \<le> of_int b"
    using p by simp_all
  have u: "uniform a b r = binary64 (of_int a + binary64 (of_int (b - a) * r))"
    by (simp only: uniform_def a d)
  from binary64_between [OF s1 s2 assms(2) assms(3)] show ?thesis
    by (simp only: u)
qed

subsection \<open>Two one-sample histories\<close>

lemma history_latency_90:
  "metrics_history (snd (read_metrics init_controller (1 / 4) 0 0 0)) =
     [\<lparr>timestamp = 0, latency_us = 90, throughput_mbps = 950, jitter_us = 0,
       pcie_status = ACTIVE, dma_status = ACTIVE, compute_status = ACTIVE\<rparr>]"
  by code_simp

lemma history_latency_0:
  "metrics_history (snd (read_metrics
      (snd (update_config init_controller [(''active_cores'', 13)])) (1 / 4) 0 0 0)) =
     [\<lparr>timestamp = 0, latency_us = 0, throughput_mbps = 3200, jitter_us = 0,
       pcie_status = ACTIVE, dma_status = ACTIVE, compute_status = ACTIVE\<rparr>]"
  by code_simp

subsection \<open>The metrics history and its statistics window\<close>








subsection \<open>Configuration updates\<close>

lemma update_items_field:
  "distinct (map fst kwargs) \<Longrightarrow>
   window_size (update_items cfg kwargs) =
     (case map_of kwargs ''window_size'' of None \<Rightarrow> window_size cfg | Some v \<Rightarrow> v) \<and>
   active_cores (update_items cfg kwargs) =
     (case map_of kwargs ''active_cores'' of None \<Rightarrow> active_cores cfg | Some v \<Rightarrow> v) \<and>
   data_rate (update_items cfg kwargs) =
     (case map_of kwargs ''data_rate'' of None \<Rightarrow> data_rate cfg | Some v \<Rightarrow> v) \<and>
   filter_threshold (update_items cfg kwargs) =
     (case map_of kwargs ''filter_threshold'' of None \<Rightarrow> filter_threshold cfg | Some v \<Rightarrow> v)"
proof (induction cfg kwargs rule: update_items.induct)
  case (1 cfg)
  show ?case by simp
next
  case (2 cfg key v kwargs)
  have absent: "map_of kwargs key = None"
    using 2(2) by (simp add: map_of_eq_None_iff)
  from 2 have IH: "window_size (update_items (if hasattr_config key then setattr_config cfg key v else cfg) kwargs) =
     (case map_of kwargs ''window_size'' of None \<Rightarrow> window_size (if hasattr_config key then setattr_config cfg key v else cfg) | Some v \<Rightarrow> v) \<and>
   active_cores (update_items (if hasattr_config key then setattr_config cfg key v else cfg) kwargs) =
     (case map_of kwargs ''active_cores'' of None \<Rightarrow> active_cores (if hasattr_config key then setattr_config cfg key v else cfg) | Some v \<Rightarrow> v) \<and>
   data_rate (update_items (if hasattr_config key then setattr_config cfg key v else cfg) kwargs) =
     (case map_of kwargs ''data_rate'' of None \<Rightarrow> data_rate (if hasattr_config key then setattr_config cfg key v else cfg) | Some v \<Rightarrow> v) \<and>
   filter_threshold (update_items (if hasattr_config key then setattr_config cfg key v else cfg) kwargs) =
     (case map_of kwargs ''filter_threshold'' of None \<Rightarrow> filter_threshold (if hasattr_config key then setattr_config cfg key v else cfg) | Some v \<Rightarrow> v)"
    by simp
  show ?case
    using IH absent
    by (auto simp add: hasattr_config_def setattr_config_def split: option.splits)
qed

subsection \<open>The percentile index\<close>

lemma scaled_len_in_range:
  assumes "0 < n" "0 \<le> q" "q < 1"
  shows "int_of_scaled_len n q < n"
proof -
  have "real n * q < real n" using assms by simp
  then have "\<lfloor>real n * q\<rfloor> < int n" by (simp add: floor_less_iff)
  moreover have "0 \<le> \<lfloor>real n * q\<rfloor>" using assms by simp
  ultimately show ?thesis by (simp add: int_of_scaled_len_def nat_less_iff)
qed

lemma scaled_len_clamped:
  assumes "0 < n" "0 \<le> q" "q < 1"
  shows "int_of_scaled_len n q = nat (max 0 (min (int n - 1) \<lfloor>q * real n\<rfloor>))"
proof -
  have "real n * q < real n" using assms by simp
  then have "\<lfloor>real n * q\<rfloor> < int n" by (simp add: floor_less_iff)
  moreover have "0 \<le> \<lfloor>real n * q\<rfloor>" using assms by simp
  ultimately show ?thesis by (simp add: int_of_scaled_len_def mult.commute)
qed

lemma index_is_spec_percentile:
  assumes "xs \<noteq> []" "0 < p" "p < 100"
  shows "py_index (sort xs) (int_of_scaled_len (length xs) (p / 100)) = Inr (spec_percentile p xs)"
proof -
  have n: "0 < length xs" using assms(1) by simp
  have q: "0 \<le> p / 100" "p / 100 < 1" using assms by simp_all
  show ?thesis
    using scaled_len_in_range [OF n q] scaled_len_clamped [OF n q]
    by (simp add: py_index_def spec_percentile_def)
qed

subsection \<open>The two reports on inputs that are long enough\<close>

lemma py_max_nonempty: "xs \<noteq> [] \<Longrightarrow> py_max xs = Inr (fold max (tl xs) (hd xs))"
  by (cases xs) simp_all

lemma py_min_nonempty: "xs \<noteq> [] \<Longrightarrow> py_min xs = Inr (fold min (tl xs) (hd xs))"
  by (cases xs) simp_all



lemma get_statistics_nonempty:
  assumes "metrics_history c \<noteq> []"
  shows "get_statistics c =
     (let lat = map latency_us (slice_last 100 (metrics_history c));
          jit = map jitter_us (slice_last 100 (metrics_history c));
          m = sum_list lat / real (length lat)
      in if m = 0 then Inl ZeroDivisionError
         else Inr (Some \<lparr>avg_latency_us = m,
                max_latency_us = fold max (tl lat) (hd lat),
                min_latency_us = fold min (tl lat) (hd lat),
                p99_latency_us = spec_percentile 99 lat,
                max_jitter_us = fold max (tl jit) (hd jit),
                speedup_vs_cpu = 150 / m\<rparr>))"
proof -
  let ?w = "slice_last 100 (metrics_history c)"
  have "0 < length (metrics_history c)" using assms by simp
  then have "0 < length ?w" by (simp add: slice_last_def)
  then have w: "?w \<noteq> []" by simp
  have lat: "map latency_us ?w \<noteq> []" and jit: "map jitter_us ?w \<noteq> []" using w by simp_all
  have len: "real (length ?w) \<noteq> 0" using w by simp
  have p99: "py_index (sort (map latency_us ?w)) (int_of_scaled_len (length (map latency_us ?w)) 0.99)
             = Inr (spec_percentile 99 (map latency_us ?w))"
    using index_is_spec_percentile [OF lat, of 99] by simp
  note mx = py_max_nonempty [OF lat] and mn = py_min_nonempty [OF lat]
    and mj = py_max_nonempty [OF jit]
  show ?thesis
    unfolding get_statistics_def Let_def p99 mx mn mj
    using assms len
    by (simp add: bind_err_def py_truediv_def)
qed

subsection \<open>The latency test on a connected controller\<close>

lemma latency_loop_connected:
  "is_connected c \<Longrightarrow>
   latency_loop c elapsed idxs acc = (Inr (acc @ map elapsed idxs), c)"
  by (induction idxs arbitrary: acc) (simp_all add: stream_data_def)

lemma run_latency_test_connected:
  "is_connected c \<Longrightarrow>
   run_latency_test c iterations elapsed =
     (latency_results (map elapsed [0 ..< nat iterations]), c)"
  by (simp add: run_latency_test_def latency_loop_connected)

lemma latency_results_short:
  "length xs < 2 \<Longrightarrow> latency_results xs = Inl StatisticsError"
proof (cases xs)
  case Nil
  then show ?thesis by (simp add: latency_results_def bind_err_def mean_def)
next
  case (Cons x ys)
  assume "length xs < 2"
  with Cons have "ys = []" by simp
  with Cons show ?thesis
    by (simp add: latency_results_def bind_err_def mean_def median_def stdev_def)
qed

lemma run_latency_test_short:
  assumes "is_connected c" "iterations < 2"
  shows "fst (run_latency_test c iterations elapsed) = Inl StatisticsError"
proof -
  have "length (map elapsed [0 ..< nat iterations]) < 2" using assms(2) by simp
  then have "latency_results (map elapsed [0 ..< nat iterations]) = Inl StatisticsError"
    by (rule latency_results_short)
  then show ?thesis using assms(1) by (simp add: run_latency_test_connected)
qed

section \<open>Properties\<close>

text \<open>
  Claim C1. The claim is that \<open>stream_data\<close> and \<open>read_metrics\<close> both fail on a
  controller that is not connected and append nothing. On the freshly constructed
  controller \<open>stream_data\<close> raises and leaves the controller as it was, but
  \<open>read_metrics\<close> has no such guard: it returns a sample and the history grows from
  0 to 1 entries.
\<close>

theorem read_metrics_disconnected_appends:
  "\<not> is_connected init_controller \<and>
   stream_data init_controller [1, 2, 3] = (Inl RuntimeError, init_controller) \<and>
   length (metrics_history init_controller) = 0 \<and>
   length (metrics_history (snd (read_metrics init_controller 0 0 0 0))) = 1"
  by (simp add: init_controller_def stream_data_def read_metrics_def Let_def)

text \<open>
  Claim C2 (amended). For a connected controller, \<open>stream_data\<close> returns a payload of
  the length of its input and leaves the controller, and so the metrics history,
  unchanged: no sample is recorded by streaming.
\<close>

theorem stream_data_connected:
  "is_connected c \<Longrightarrow>
   (\<exists>out. fst (stream_data c data) = Inr out \<and> length out = length data) \<and>
   snd (stream_data c data) = c \<and>
   metrics_history (snd (stream_data c data)) = metrics_history c"
  by (simp add: stream_data_def)

theorem stream_data_connected_witness:
  "is_connected (snd (connect init_controller)) \<and>
   (\<exists>out. fst (stream_data (snd (connect init_controller)) [7, 8]) = Inr out \<and> length out = length [7::8 word, 8]) \<and>
   metrics_history (snd (stream_data (snd (connect init_controller)) [7, 8])) = []"
  using stream_data_connected [of "snd (connect init_controller)" "[7, 8]"]
  by (simp add: connect_def init_controller_def)

text \<open>
  Claim C2 as stated fails: after one \<open>stream_data\<close> call on a connected controller
  the history is not one entry longer.
\<close>

theorem stream_data_no_sample_counterexample:
  "is_connected (snd (connect init_controller)) \<and>
   length (metrics_history (snd (stream_data (snd (connect init_controller)) [1, 2, 3]))) \<noteq>
   length (metrics_history (snd (connect init_controller))) + 1"
  by (simp add: connect_def init_controller_def stream_data_def)

text \<open>
  Claim C3 (amended). After \<open>disconnect\<close>, from any state, the controller is not
  connected; the metrics history and the configuration are the ones before the call.
\<close>

theorem disconnect_effect:
  "\<not> is_connected (disconnect c) \<and>
   metrics_history (disconnect c) = metrics_history c \<and>
   config (disconnect c) = config c"
  by (simp add: disconnect_def)

text \<open>
  Claim C3 as stated fails: connect, set \<open>active_cores\<close> to 6, read one metric and
  disconnect; the history still holds the sample and the configuration is not the
  default one.
\<close>

theorem disconnect_keeps_counterexample:
  "length (metrics_history (disconnect (snd (read_metrics
      (snd (update_config (snd (connect init_controller)) [(''active_cores'', 6)])) 0 0 0 0)))) = 1 \<and>
   config (disconnect (snd (read_metrics
      (snd (update_config (snd (connect init_controller)) [(''active_cores'', 6)])) 0 0 0 0)))
     \<noteq> default_config"
  by (simp add: disconnect_def read_metrics_def update_config_def connect_def init_controller_def
      default_config_def hasattr_config_def setattr_config_def Let_def)



text \<open>
  Claim C5 (amended). \<open>update_config\<close> validates nothing: for every set of keyword
  arguments whose names do not start with an underscore it returns \<open>True\<close>, each of
  the four configuration fields that is supplied holds the supplied value afterwards,
  whatever that value is, each field that is not supplied keeps its value, the other
  names are ignored, and the rest of the controller is unchanged.
\<close>

theorem update_config_assigns_unchecked:
  "distinct (map fst kwargs) \<Longrightarrow>
   \<forall>key \<in> set (map fst kwargs). \<not> private_name key \<Longrightarrow>
   fst (update_config c kwargs) = True \<and>
   window_size (config (snd (update_config c kwargs))) =
     (case map_of kwargs ''window_size'' of
        None \<Rightarrow> window_size (config c) | Some v \<Rightarrow> v) \<and>
   active_cores (config (snd (update_config c kwargs))) =
     (case map_of kwargs ''active_cores'' of
        None \<Rightarrow> active_cores (config c) | Some v \<Rightarrow> v) \<and>
   data_rate (config (snd (update_config c kwargs))) =
     (case map_of kwargs ''data_rate'' of
        None \<Rightarrow> data_rate (config c) | Some v \<Rightarrow> v) \<and>
   filter_threshold (config (snd (update_config c kwargs))) =
     (case map_of kwargs ''filter_threshold'' of
        None \<Rightarrow> filter_threshold (config c) | Some v \<Rightarrow> v) \<and>
   is_connected (snd (update_config c kwargs)) = is_connected c \<and>
   metrics_history (snd (update_config c kwargs)) = metrics_history c"
  using update_items_field [of kwargs "config c"] by (simp add: update_config_def)

theorem update_config_assigns_unchecked_witness:
  "distinct (map fst [(''active_cores'', - 1 :: int), (''bogus'', 5)]) \<and>
   \<not> private_name ''active_cores'' \<and> \<not> private_name ''bogus'' \<and>
   fst (update_config init_controller [(''active_cores'', - 1), (''bogus'', 5)]) = True \<and>
   active_cores (config (snd (update_config init_controller
      [(''active_cores'', - 1), (''bogus'', 5)]))) = - 1 \<and>
   window_size (config (snd (update_config init_controller
      [(''active_cores'', - 1), (''bogus'', 5)]))) = 1024"
  using update_config_assigns_unchecked
    [of "[(''active_cores'', - 1), (''bogus'', 5)]" init_controller]
  by (simp add: init_controller_def default_config_def private_name_def)

text \<open>
  Claim C5 as stated fails: a negative \<open>active_cores\<close> is accepted, the call returns
  \<open>True\<close> and the configuration has changed.
\<close>

theorem update_config_invalid_counterexample:
  "fst (update_config init_controller [(''active_cores'', - 1)]) = True \<and>
   active_cores (config (snd (update_config init_controller [(''active_cores'', - 1)]))) = - 1 \<and>
   config (snd (update_config init_controller [(''active_cores'', - 1)])) \<noteq> config init_controller"
  by (simp add: update_config_def init_controller_def default_config_def
      hasattr_config_def setattr_config_def)

text \<open>
  Claim C6 (amended). On an empty metrics history \<open>get_statistics\<close> raises nothing
  and returns the empty report. The statistics of the profiler do fail on too little
  data: \<open>mean\<close> and \<open>median\<close> raise \<open>StatisticsError\<close> on no data, \<open>stdev\<close> raises it
  on fewer than two values, and so does the latency report, also when it is reached
  through \<open>run_latency_test\<close> with fewer than two iterations on a connected controller.
\<close>

theorem statistics_short_input:
  "(metrics_history c = [] \<longrightarrow> get_statistics c = Inr None) \<and>
   mean [] = Inl StatisticsError \<and>
   median [] = Inl StatisticsError \<and>
   (length xs < 2 \<longrightarrow>
      stdev xs = Inl StatisticsError \<and> latency_results xs = Inl StatisticsError) \<and>
   (is_connected c \<and> iterations < 2 \<longrightarrow>
      fst (run_latency_test c iterations elapsed) = Inl StatisticsError)"
  by (simp add: get_statistics_def mean_def median_def stdev_def latency_results_short
      run_latency_test_short)

theorem statistics_short_input_witness:
  "metrics_history (snd (connect init_controller)) = [] \<and>
   get_statistics (snd (connect init_controller)) = Inr None \<and>
   length [3::real] < 2 \<and>
   stdev [3] = Inl StatisticsError \<and> latency_results [3] = Inl StatisticsError \<and>
   is_connected (snd (connect init_controller)) \<and> (1::int) < 2 \<and>
   fst (run_latency_test (snd (connect init_controller)) 1 (\<lambda>i. 4000)) = Inl StatisticsError"
  using statistics_short_input [of "snd (connect init_controller)" "[3]" 1 "\<lambda>i. 4000"]
  by (simp add: connect_def init_controller_def)

text \<open>
  Claim C6 as stated fails: on the new controller, whose history is empty,
  \<open>get_statistics\<close> returns the empty report and no error.
\<close>

theorem get_statistics_empty_counterexample:
  "metrics_history init_controller = [] \<and> get_statistics init_controller = Inr None"
  by (simp add: get_statistics_def init_controller_def)



text \<open>
  Claim C8 (amended). The baseline is not an argument: \<open>get_statistics\<close> fixes it at
  150. On a non-empty history whose window latencies are each 0 or between
  \<open>2 ^ - 1000\<close> and \<open>2 ^ 1000\<close>, the speedup it reports is 150 divided by the mean
  latency of the window, and the call fails with \<open>ZeroDivisionError\<close> when that mean is
  zero. (On such a window the mean that the interpreter computes in doubles is zero
  exactly when the exact mean is; latencies of both signs can cancel in the double sum
  and are left out.)
\<close>

theorem speedup_vs_cpu_value:
  assumes "metrics_history c \<noteq> []"
    and "\<forall>x \<in> set (map latency_us (slice_last 100 (metrics_history c))).
           x = 0 \<or> (1 / 2 ^ 1000 \<le> x \<and> x \<le> 2 ^ 1000)"
  shows "let lat = map latency_us (slice_last 100 (metrics_history c));
             m = sum_list lat / real (length lat)
         in (m = 0 \<longrightarrow> get_statistics c = Inl ZeroDivisionError) \<and>
            (m \<noteq> 0 \<longrightarrow> (\<exists>s. get_statistics c = Inr (Some s) \<and>
                              avg_latency_us s = m \<and> speedup_vs_cpu s = 150 / m))"
  using get_statistics_nonempty [OF assms(1)] by (simp add: Let_def)

theorem speedup_vs_cpu_value_witness:
  "metrics_history (snd (read_metrics init_controller (1 / 4) 0 0 0)) \<noteq> [] \<and>
   1 / 2 ^ 1000 \<le> (90 :: real) \<and> (90 :: real) \<le> 2 ^ 1000 \<and>
   (\<exists>s. get_statistics (snd (read_metrics init_controller (1 / 4) 0 0 0)) = Inr (Some s) \<and>
        avg_latency_us s = 90 \<and> speedup_vs_cpu s = 150 / 90) \<and>
   metrics_history (snd (read_metrics
      (snd (update_config init_controller [(''active_cores'', 13)])) (1 / 4) 0 0 0)) \<noteq> [] \<and>
   get_statistics (snd (read_metrics
      (snd (update_config init_controller [(''active_cores'', 13)])) (1 / 4) 0 0 0))
     = Inl ZeroDivisionError"
  using speedup_vs_cpu_value [of "snd (read_metrics init_controller (1 / 4) 0 0 0)"]
    speedup_vs_cpu_value [of "snd (read_metrics
      (snd (update_config init_controller [(''active_cores'', 13)])) (1 / 4) 0 0 0)"]
  by (simp add: history_latency_90 history_latency_0 slice_last_def Let_def)

text \<open>
  Claim C8 as stated fails for a baseline other than 150: on the history of one sample
  of latency 90 the reported speedup is \<open>150 / 90\<close>, which is not 200 divided by the
  mean latency.
\<close>

theorem speedup_baseline_counterexample:
  "get_statistics (snd (read_metrics init_controller (1 / 4) 0 0 0)) =
     Inr (Some \<lparr>avg_latency_us = 90, max_latency_us = 90, min_latency_us = 90,
                p99_latency_us = 90, max_jitter_us = 0, speedup_vs_cpu = 150 / 90\<rparr>) \<and>
   (150 / 90 :: real) \<noteq> 200 / 90"
  using get_statistics_nonempty [of "snd (read_metrics init_controller (1 / 4) 0 0 0)"]
  by (simp add: history_latency_90 slice_last_def spec_percentile_def Let_def)

text \<open>
  Claim C9. For a connected controller and any payload, \<open>stream_data\<close> returns exactly
  the bytes it was given (the same sequence, not only the same length).
\<close>

theorem stream_data_returns_input:
  "is_connected c \<Longrightarrow> fst (stream_data c data) = Inr data"
  by (simp add: stream_data_def)

theorem stream_data_returns_input_witness:
  "is_connected (snd (connect init_controller)) \<and>
   fst (stream_data (snd (connect init_controller)) [1, 2, 255]) = Inr [1, 2, 255]"
  using stream_data_returns_input [of "snd (connect init_controller)" "[1, 2, 255]"]
  by (simp add: connect_def)

text \<open>
  Claim C10 (amended). With the three draws of \<open>random()\<close> in the unit interval and
  \<open>active_cores\<close> at most \<open>2 ^ 45\<close> in magnitude, the sample that \<open>read_metrics\<close>
  returns and appends has its latency in \<open>[base - 5, base + 15]\<close> for
  \<open>base = 50 + (8 - active_cores) * 10\<close>, its throughput within 50 of
  \<open>active_cores * 250\<close>, its jitter in \<open>[0, 5]\<close>, and its three statuses active.
\<close>

theorem read_metrics_bounds:
  assumes "0 \<le> r_lat" "r_lat \<le> 1" "0 \<le> r_thr" "r_thr \<le> 1" "0 \<le> r_jit" "r_jit \<le> 1"
    and "\<bar>active_cores (config c)\<bar> \<le> 2 ^ 45"
  shows "let m = fst (read_metrics c r_lat r_thr r_jit now);
             base = real_of_int (50 + (8 - active_cores (config c)) * 10);
             rate = real_of_int (active_cores (config c) * 250)
         in base - 5 \<le> latency_us m \<and> latency_us m \<le> base + 15 \<and>
            rate - 50 \<le> throughput_mbps m \<and> throughput_mbps m \<le> rate + 50 \<and>
            0 \<le> jitter_us m \<and> jitter_us m \<le> 5 \<and>
            pcie_status m = ACTIVE \<and> dma_status m = ACTIVE \<and> compute_status m = ACTIVE \<and>
            metrics_history (snd (read_metrics c r_lat r_thr r_jit now)) =
              metrics_history c @ [m]"
proof -
  define ac where "ac = active_cores (config c)"
  define base where "base = 50 + (8 - ac) * 10"
  define rate where "rate = ac * 250"
  have ac: "\<bar>ac\<bar> \<le> 2 ^ 45" using assms(7) by (simp add: ac_def)
  have bb: "\<bar>base - 5\<bar> < 2 ^ 53" "\<bar>base\<bar> < 2 ^ 53" "\<bar>base + 15\<bar> < 2 ^ 53"
    using ac by (simp_all add: base_def)
  have rb: "\<bar>rate - 50\<bar> < 2 ^ 53" "\<bar>rate\<bar> < 2 ^ 53" "\<bar>rate + 50\<bar> < 2 ^ 53"
    using ac by (simp_all add: rate_def)
  have fb: "binary64 (of_int base) = of_int base" using bb(2) by (rule binary64_of_int)
  have fr: "binary64 (of_int rate) = of_int rate" using rb(2) by (rule binary64_of_int)
  have ul: "of_int (- 5) \<le> uniform (- 5) 15 r_lat \<and> uniform (- 5) 15 r_lat \<le> of_int 15"
    using assms(1,2) by (intro uniform_between) simp_all
  have ut: "of_int (- 50) \<le> uniform (- 50) 50 r_thr \<and> uniform (- 50) 50 r_thr \<le> of_int 50"
    using assms(3,4) by (intro uniform_between) simp_all
  have uj: "of_int 0 \<le> uniform 0 5 r_jit \<and> uniform 0 5 r_jit \<le> of_int 5"
    using assms(5,6) by (intro uniform_between) simp_all
  have l1: "of_int (base - 5) \<le> of_int base + uniform (- 5) 15 r_lat"
    and l2: "of_int base + uniform (- 5) 15 r_lat \<le> of_int (base + 15)"
    using ul by simp_all
  have t1: "of_int (rate - 50) \<le> of_int rate + uniform (- 50) 50 r_thr"
    and t2: "of_int rate + uniform (- 50) 50 r_thr \<le> of_int (rate + 50)"
    using ut by simp_all
  note L = binary64_between [OF l1 l2 bb(1) bb(3)]
  note T = binary64_between [OF t1 t2 rb(1) rb(3)]
  have lat: "latency_us (fst (read_metrics c r_lat r_thr r_jit now)) =
      binary64 (of_int base + uniform (- 5) 15 r_lat)"
    using fb by (simp add: read_metrics_def Let_def base_def ac_def)
  have thr: "throughput_mbps (fst (read_metrics c r_lat r_thr r_jit now)) =
      binary64 (of_int rate + uniform (- 50) 50 r_thr)"
    using fr by (simp add: read_metrics_def Let_def rate_def ac_def)
  have jit: "jitter_us (fst (read_metrics c r_lat r_thr r_jit now)) = uniform 0 5 r_jit"
    by (simp add: read_metrics_def Let_def)
  have rest: "pcie_status (fst (read_metrics c r_lat r_thr r_jit now)) = ACTIVE"
    "dma_status (fst (read_metrics c r_lat r_thr r_jit now)) = ACTIVE"
    "compute_status (fst (read_metrics c r_lat r_thr r_jit now)) = ACTIVE"
    "metrics_history (snd (read_metrics c r_lat r_thr r_jit now)) =
       metrics_history c @ [fst (read_metrics c r_lat r_thr r_jit now)]"
    by (simp_all add: read_metrics_def Let_def)
  show ?thesis
    unfolding Let_def lat thr jit
    using L T uj rest by (simp add: base_def rate_def ac_def)
qed

theorem read_metrics_bounds_witness:
  "(0 :: real) \<le> 0 \<and> (0 :: real) \<le> 1 \<and> (0 :: real) \<le> 1 \<and> (1 :: real) \<le> 1 \<and>
   (0 :: real) \<le> 1 / 2 \<and> (1 / 2 :: real) \<le> 1 \<and>
   \<bar>active_cores (config init_controller)\<bar> \<le> 2 ^ 45 \<and>
   85 \<le> latency_us (fst (read_metrics init_controller 0 1 (1 / 2) 7)) \<and>
   latency_us (fst (read_metrics init_controller 0 1 (1 / 2) 7)) \<le> 105 \<and>
   950 \<le> throughput_mbps (fst (read_metrics init_controller 0 1 (1 / 2) 7)) \<and>
   throughput_mbps (fst (read_metrics init_controller 0 1 (1 / 2) 7)) \<le> 1050 \<and>
   0 \<le> jitter_us (fst (read_metrics init_controller 0 1 (1 / 2) 7)) \<and>
   jitter_us (fst (read_metrics init_controller 0 1 (1 / 2) 7)) \<le> 5 \<and>
   pcie_status (fst (read_metrics init_controller 0 1 (1 / 2) 7)) = ACTIVE \<and>
   metrics_history (snd (read_metrics init_controller 0 1 (1 / 2) 7)) =
     [fst (read_metrics init_controller 0 1 (1 / 2) 7)]"
  using read_metrics_bounds [of 0 1 "1 / 2" init_controller 7]
  by (simp add: init_controller_def default_config_def Let_def)

text \<open>
  Claim C10 as stated fails for a large \<open>active_cores\<close>: at 72057594037930, which
  \<open>update_config\<close> accepts, \<open>active_cores * 250\<close> is \<open>2 ^ 54 + 516\<close>, doubles are 4
  apart there, and with the draw 0 the sum \<open>active_cores * 250 - 50\<close> lies halfway
  between two doubles and rounds to \<open>active_cores * 250 - 52\<close>, below the bound.
\<close>

theorem read_metrics_bounds_counterexample:
  "throughput_mbps (fst (read_metrics
      (snd (update_config init_controller [(''active_cores'', 72057594037930)])) 0 0 0 0))
   < real_of_int (active_cores (config
      (snd (update_config init_controller [(''active_cores'', 72057594037930)]))) * 250) - 50"
  by code_simp

end
